theory Spec2Isabelle
  imports Main "HOL-Library.Sublist"
begin

section \<open>The lead importer of the CRM front end\<close>

text \<open>
  The component \<open>LeadImporter\<close> holds the client side of the tabular import: the
  check of the uploaded file's extension, the proposal of a column mapping from the
  headers of the preview, the edit of one mapping, the check that every required field
  is mapped, and the gate in front of the import request.

  Strings are lists of characters. Every pattern the component looks for is ASCII, and
  \<open>toLowerCase\<close> is modelled on the ASCII letters; any other character is left as it is.
\<close>

subsection \<open>Strings and arrays of the host language\<close>

definition toLowerChar :: "char \<Rightarrow> char" where
  "toLowerChar c =
     (let n = (of_char c :: nat) in if 65 \<le> n \<and> n \<le> 90 then char_of (n + 32) else c)"

definition toLowerCase :: "string \<Rightarrow> string" where
  "toLowerCase s = map toLowerChar s"

text \<open>The character class \<open>[a-z0-9]\<close> of the regular expression.\<close>

definition isLowerAlnum :: "char \<Rightarrow> bool" where
  "isLowerAlnum c =
     (let n = (of_char c :: nat) in (97 \<le> n \<and> n \<le> 122) \<or> (48 \<le> n \<and> n \<le> 57))"

text \<open>
  The substring test \<open>s.includes(p)\<close> of strings, named \<open>includesStr\<close> (the word
  \<open>includes\<close> is reserved), by way of \<open>s.startsWith(p)\<close>. Membership in an array,
  \<open>xs.includes(x)\<close>, is \<open>x \<in> set xs\<close>.
\<close>

fun startsWith :: "string \<Rightarrow> string \<Rightarrow> bool" where
  "startsWith s [] = True"
| "startsWith [] (p # ps) = False"
| "startsWith (c # cs) (p # ps) = (c = p \<and> startsWith cs ps)"

fun includesStr :: "string \<Rightarrow> string \<Rightarrow> bool" where
  "includesStr [] p = (p = [])"
| "includesStr (c # cs) p = (startsWith (c # cs) p \<or> includesStr cs p)"

text \<open>\<open>xs.join(sep)\<close> on an array of strings.\<close>

fun join :: "string \<Rightarrow> string list \<Rightarrow> string" where
  "join sep [] = []"
| "join sep [x] = x"
| "join sep (x # y # ys) = x @ sep @ join sep (y # ys)"

text \<open>\<open>s.lastIndexOf(c)\<close>: the last position of \<open>c\<close>, or \<open>-1\<close>.\<close>

fun lastIndexOf :: "string \<Rightarrow> char \<Rightarrow> int" where
  "lastIndexOf [] c = - 1"
| "lastIndexOf (x # xs) c =
     (let r = lastIndexOf xs c in if 0 \<le> r then r + 1 else if x = c then 0 else - 1)"

text \<open>\<open>s.slice(i)\<close>: a negative start counts from the end, and both are clamped.\<close>

definition slice :: "string \<Rightarrow> int \<Rightarrow> string" where
  "slice s i =
     (let n = int (length s);
          k = (if i < 0 then max (n + i) 0 else min i n)
      in drop (nat k) s)"

text \<open>\<open>a || b\<close> on strings: the empty string is falsy.\<close>

definition orElse :: "string \<Rightarrow> string \<Rightarrow> string" where
  "orElse a b = (if a = [] then b else a)"

subsection \<open>Data model\<close>

record User =
  id :: int
  email :: string
  is_active :: bool

record ColumnMapping =
  csvColumn :: string
  leadField :: string

record PreviewData =
  headers :: "string list"
  rows :: "string list list"
  totalRows :: int

record ImportFailure =
  row :: int
  data :: string
  row_error :: string

record ImportResult =
  message :: string
  successful_imports :: int
  failed_imports :: int
  warnings :: "string list"
  failures :: "ImportFailure list"

record ValidationInfo =
  field :: string
  required :: bool
  description :: string
  example :: "string option"

text \<open>The browser's \<open>File\<close>: the component reads its name and sends it whole.\<close>

record File =
  name :: string
  content :: string

datatype Step = Upload | Mapping | Import

text \<open>Lead field definitions, as the component declares them.\<close>

definition leadFields :: "ValidationInfo list" where
  "leadFields =
    [\<lparr>field = ''name'', required = True, description = ''Company/Organization name'',
       example = Some ''Acme Corporation''\<rparr>,
     \<lparr>field = ''contact_person'', required = False,
       description = ''Primary contact person name'', example = Some ''John Smith''\<rparr>,
     \<lparr>field = ''contact_title'', required = False,
       description = ''Contact person job title'', example = Some ''Operations Manager''\<rparr>,
     \<lparr>field = ''email'', required = False, description = ''Primary email address'',
       example = Some ''john@acme.com''\<rparr>,
     \<lparr>field = ''phone'', required = False, description = ''Primary phone number'',
       example = Some ''(555) 123-4567''\<rparr>,
     \<lparr>field = ''phone_label'', required = False,
       description = ''Phone type (work, mobile, home)'', example = Some ''work''\<rparr>,
     \<lparr>field = ''secondary_phone'', required = False,
       description = ''Secondary phone number'', example = Some ''(555) 987-6543''\<rparr>,
     \<lparr>field = ''secondary_phone_label'', required = False,
       description = ''Secondary phone type'', example = Some ''mobile''\<rparr>,
     \<lparr>field = ''address'', required = False, description = ''Street address'',
       example = Some ''123 Main St''\<rparr>,
     \<lparr>field = ''city'', required = False, description = ''City name'',
       example = Some ''Houston''\<rparr>,
     \<lparr>field = ''state'', required = False, description = ''State/Province'',
       example = Some ''TX''\<rparr>,
     \<lparr>field = ''zip'', required = False, description = ''ZIP/Postal code'',
       example = Some ''77001''\<rparr>,
     \<lparr>field = ''notes'', required = False, description = ''Additional information'',
       example = Some ''Potential customer from trade show''\<rparr>,
     \<lparr>field = ''type'', required = False,
       description = ''Business type (Oil & Gas, Secondary Containment, etc.)'',
       example = Some ''Oil & Gas''\<rparr>,
     \<lparr>field = ''lead_status'', required = False,
       description = ''Lead status (open, qualified, proposal, closed)'',
       example = Some ''open''\<rparr>]"

subsection \<open>Mapping inference\<close>

text \<open>\<open>header.toLowerCase().replace(/[^a-z0-9]/g, '')\<close>\<close>

definition normalizedHeader :: "string \<Rightarrow> string" where
  "normalizedHeader header = filter isLowerAlnum (toLowerCase header)"

text \<open>The chain of conditionals that picks \<open>suggestedField\<close>, in the order of the source.\<close>

definition suggestedField :: "string \<Rightarrow> string" where
  "suggestedField n =
    (if includesStr n ''name'' \<or> includesStr n ''company'' \<or> includesStr n ''plant''
       then ''name''
     else if includesStr n ''contact'' \<and> (includesStr n ''person'' \<or> includesStr n ''name'')
       then ''contact_person''
     else if includesStr n ''title'' then ''contact_title''
     else if includesStr n ''email'' then ''email''
     else if includesStr n ''phone'' \<and> \<not> includesStr n ''secondary'' then ''phone''
     else if includesStr n ''phone'' \<and> includesStr n ''secondary'' then ''secondary_phone''
     else if includesStr n ''address'' then ''address''
     else if includesStr n ''city'' then ''city''
     else if includesStr n ''state'' then ''state''
     else if includesStr n ''zip'' \<or> includesStr n ''postal'' then ''zip''
     else if includesStr n ''note'' \<or> includesStr n ''desc'' then ''notes''
     else if includesStr n ''type'' \<or> includesStr n ''industry'' then ''type''
     else if includesStr n ''status'' then ''lead_status''
     else '''')"

text \<open>The callback of \<open>preview.headers.map\<close>, and the map itself.\<close>

definition inferMapping :: "string \<Rightarrow> ColumnMapping" where
  "inferMapping header =
     \<lparr>csvColumn = header, leadField = suggestedField (normalizedHeader header)\<rparr>"

definition initialMappings :: "string list \<Rightarrow> ColumnMapping list" where
  "initialMappings hs = map inferMapping hs"

subsection \<open>Component state and the two back-end calls\<close>

text \<open>
  One field per \<open>useState\<close> of the component; a state setter is a record update. The
  state variable \<open>file\<close> is the field \<open>file_st\<close>.
\<close>

record State =
  users :: "User list"
  selectedUser :: string
  file_st :: "File option"
  previewData :: "PreviewData option"
  columnMappings :: "ColumnMapping list"
  isUploading :: bool
  isProcessingFile :: bool
  importResult :: "ImportResult option"
  error :: string
  showModal :: bool
  currentStep :: Step
  showAllPreview :: bool

text \<open>
  The requests the component sends: the preview of a file, and the import of a file for a
  user under a column mapping. Both carry the bearer token. A handler returns the new
  state together with the requests it has sent.
\<close>

datatype Request =
  PreviewRequest string File
| ImportRequest string File string "ColumnMapping list"

text \<open>
  What comes back from the preview call: the call or the decoding of its body throws an
  error with a message, the response is not ok, or the body is a preview.
\<close>

datatype PreviewResponse =
  PreviewThrows string
| PreviewNotOk
| PreviewOk PreviewData

text \<open>
  What comes back from the import call: the call throws with a message, the response is
  not ok with a JSON body (its \<open>error\<close> member, empty when absent), the response is
  not ok with another body (status and status text, as the template literal prints
  them), or the body is an import result.
\<close>

datatype ImportResponse =
  ImportThrows string
| ImportNotOkJson string
| ImportNotOkOther string string
| ImportOk ImportResult

subsection \<open>Upload\<close>

definition validTypes :: "string list" where
  "validTypes = [''.csv'', ''.xlsx'']"

text \<open>\<open>selectedFile.name.toLowerCase().slice(selectedFile.name.lastIndexOf('.'))\<close>\<close>

definition fileExtension :: "string \<Rightarrow> string" where
  "fileExtension nm = slice (toLowerCase nm) (lastIndexOf nm CHR ''.'')"

definition handleFileChange ::
  "string \<Rightarrow> (Request \<Rightarrow> PreviewResponse) \<Rightarrow> File option \<Rightarrow> State \<Rightarrow> State \<times> Request list"
where
  "handleFileChange token server selected st =
    (case selected of
       None \<Rightarrow> (st, [])
     | Some selectedFile \<Rightarrow>
        if fileExtension (name selectedFile) \<notin> set validTypes
        then (st\<lparr>error := ''Please upload a CSV or Excel (.xlsx) file'', file_st := None\<rparr>, [])
        else
          let st1 = st\<lparr>file_st := Some selectedFile, error := [], isProcessingFile := True\<rparr>;
              req = PreviewRequest token selectedFile
          in (case server req of
                PreviewOk preview \<Rightarrow>
                  st1\<lparr>previewData := Some preview,
                      columnMappings := initialMappings (headers preview),
                      currentStep := Mapping,
                      isProcessingFile := False\<rparr>
              | PreviewNotOk \<Rightarrow>
                  st1\<lparr>error := orElse ''Failed to process file'' ''Failed to process file'',
                      file_st := None,
                      isProcessingFile := False\<rparr>
              | PreviewThrows msg \<Rightarrow>
                  st1\<lparr>error := orElse msg ''Failed to process file'',
                      file_st := None,
                      isProcessingFile := False\<rparr>,
              [req]))"

subsection \<open>Editing and checking a mapping\<close>

text \<open>The function handed to \<open>setColumnMappings\<close>, and the state update around it.\<close>

definition updateMappingList :: "string \<Rightarrow> string \<Rightarrow> ColumnMapping list \<Rightarrow> ColumnMapping list" where
  "updateMappingList c lf prev =
     map (\<lambda>mapping. if csvColumn mapping = c then mapping\<lparr>leadField := lf\<rparr> else mapping) prev"

definition updateMapping :: "string \<Rightarrow> string \<Rightarrow> State \<Rightarrow> State" where
  "updateMapping c lf st = st\<lparr>columnMappings := updateMappingList c lf (columnMappings st)\<rparr>"

text \<open>
  \<open>validateMappings\<close> reads the schema and the mappings of the state; here both are
  arguments, and the component's own call is \<open>validateMappings\<close> below. The filter
  \<open>m => m.leadField\<close> keeps the entries whose target is not the empty string.
\<close>

definition missingRequired :: "ValidationInfo list \<Rightarrow> ColumnMapping list \<Rightarrow> string list" where
  "missingRequired schema cms =
     (let requiredFields = map field (filter required schema);
          mappedFields = map leadField (filter (\<lambda>m. leadField m \<noteq> []) cms)
      in filter (\<lambda>f. f \<notin> set mappedFields) requiredFields)"

definition validateMappingsFor :: "ValidationInfo list \<Rightarrow> ColumnMapping list \<Rightarrow> string list" where
  "validateMappingsFor schema cms =
     (let errors = [];
          missing = missingRequired schema cms
      in if 0 < length missing
         then errors @ [''Missing required fields: '' @ join '', '' missing]
         else errors)"

definition validateMappings :: "State \<Rightarrow> string list" where
  "validateMappings st = validateMappingsFor leadFields (columnMappings st)"

subsection \<open>Import\<close>

text \<open>
  The handler up to the answer of the import call. After a successful import it also
  empties the file input of the page, which is no part of the state.
\<close>

definition handleImport ::
  "string \<Rightarrow> (Request \<Rightarrow> ImportResponse) \<Rightarrow> State \<Rightarrow> State \<times> Request list"
where
  "handleImport token server st =
    (case file_st st of
       None \<Rightarrow> (st\<lparr>error := ''Please select a file and user''\<rparr>, [])
     | Some f \<Rightarrow>
        if selectedUser st = [] then (st\<lparr>error := ''Please select a file and user''\<rparr>, [])
        else
          let validationErrors = validateMappings st
          in if 0 < length validationErrors
             then (st\<lparr>error := join ''. '' validationErrors\<rparr>, [])
             else
               let st1 = st\<lparr>isUploading := True, error := [], importResult := None\<rparr>;
                   req = ImportRequest token f (selectedUser st) (columnMappings st)
               in (case server req of
                     ImportOk res \<Rightarrow>
                       st1\<lparr>importResult := Some res,
                           currentStep := Import,
                           file_st := None,
                           selectedUser := [],
                           previewData := None,
                           columnMappings := [],
                           isUploading := False\<rparr>
                   | ImportNotOkJson e \<Rightarrow>
                       st1\<lparr>error := orElse (orElse e ''Import failed'') ''Import failed'',
                           isUploading := False\<rparr>
                   | ImportNotOkOther status statusText \<Rightarrow>
                       st1\<lparr>error := orElse (''Server error: '' @ status @ '' '' @ statusText)
                                        ''Import failed'',
                           isUploading := False\<rparr>
                   | ImportThrows msg \<Rightarrow>
                       st1\<lparr>error := orElse msg ''Import failed'',
                           isUploading := False\<rparr>,
                   [req]))"

subsection \<open>Notions used to state the properties\<close>

text \<open>
  The values the state variables start with (the arguments of \<open>useState\<close>).
\<close>

definition initialState :: State where
  "initialState =
     \<lparr>users = [], selectedUser = [], file_st = None, previewData = None,
      columnMappings = [], isUploading = False, isProcessingFile = False,
      importResult = None, error = [], showModal = False, currentStep = Upload,
      showAllPreview = False\<rparr>"

text \<open>
  Some rule of the chain matches: the disjunction of the thirteen guards of
  \<open>suggestedField\<close>, in their order.
\<close>

definition matchesAnyRule :: "string \<Rightarrow> bool" where
  "matchesAnyRule n =
    ((includesStr n ''name'' \<or> includesStr n ''company'' \<or> includesStr n ''plant'')
     \<or> (includesStr n ''contact'' \<and> (includesStr n ''person'' \<or> includesStr n ''name''))
     \<or> includesStr n ''title''
     \<or> includesStr n ''email''
     \<or> (includesStr n ''phone'' \<and> \<not> includesStr n ''secondary'')
     \<or> (includesStr n ''phone'' \<and> includesStr n ''secondary'')
     \<or> includesStr n ''address''
     \<or> includesStr n ''city''
     \<or> includesStr n ''state''
     \<or> (includesStr n ''zip'' \<or> includesStr n ''postal'')
     \<or> (includesStr n ''note'' \<or> includesStr n ''desc'')
     \<or> (includesStr n ''type'' \<or> includesStr n ''industry'')
     \<or> includesStr n ''status'')"


section \<open>Facts about the string primitives\<close>

lemma startsWith_iff: "startsWith s p \<longleftrightarrow> (\<exists>b. s = p @ b)"
  by (induction s p rule: startsWith.induct) auto

lemma includesStr_iff: "includesStr s p \<longleftrightarrow> (\<exists>a b. s = a @ p @ b)"
proof (induction s)
  case Nil
  then show ?case by simp
next
  case (Cons c cs)
  show ?case
  proof
    assume "includesStr (c # cs) p"
    then consider "startsWith (c # cs) p" | "includesStr cs p" by auto
    then show "\<exists>a b. c # cs = a @ p @ b"
    proof cases
      case 1
      then obtain b where "c # cs = p @ b" by (auto simp: startsWith_iff)
      then have "c # cs = [] @ p @ b" by simp
      then show ?thesis by blast
    next
      case 2
      then obtain a b where "cs = a @ p @ b" using Cons.IH by blast
      then have "c # cs = (c # a) @ p @ b" by simp
      then show ?thesis by blast
    qed
  next
    assume "\<exists>a b. c # cs = a @ p @ b"
    then obtain a b where ab: "c # cs = a @ p @ b" by blast
    show "includesStr (c # cs) p"
    proof (cases a)
      case Nil
      with ab have "startsWith (c # cs) p" by (auto simp: startsWith_iff)
      then show ?thesis by simp
    next
      case (Cons x xs)
      with ab have "cs = xs @ p @ b" by simp
      then have "includesStr cs p" using Cons.IH by blast
      then show ?thesis by simp
    qed
  qed
qed

lemma join_member: "x \<in> set xs \<Longrightarrow> \<exists>a b. join sep xs = a @ x @ b"
proof (induction sep xs rule: join.induct)
  case (1 sep)
  then show ?case by simp
next
  case (2 sep y)
  then have "join sep [y] = [] @ x @ []" by simp
  then show ?case by blast
next
  case (3 sep y z zs)
  show ?case
  proof (cases "x = y")
    case True
    then have "join sep (y # z # zs) = [] @ x @ (sep @ join sep (z # zs))" by simp
    then show ?thesis by blast
  next
    case False
    with 3 obtain a b where "join sep (z # zs) = a @ x @ b" by auto
    then have "join sep (y # z # zs) = (y @ sep @ a) @ x @ b" by simp
    then show ?thesis by blast
  qed
qed

lemma includesStr_join:
  assumes "x \<in> set xs"
  shows "includesStr (p @ join sep xs) x"
proof -
  from join_member [OF assms] obtain a b where "join sep xs = a @ x @ b" by blast
  then have "p @ join sep xs = (p @ a) @ x @ b" by simp
  then show ?thesis unfolding includesStr_iff by blast
qed

lemma join_length_member: "x \<in> set xs \<Longrightarrow> length x \<le> length (join sep xs)"
  using join_member [of x xs sep] by auto

lemma of_char_toLowerChar:
  "(of_char (toLowerChar c) :: nat) =
     (if 65 \<le> (of_char c :: nat) \<and> (of_char c :: nat) \<le> 90 then of_char c + 32 else of_char c)"
  by (simp add: toLowerChar_def Let_def)

lemma toLowerChar_dot: "toLowerChar c = CHR ''.'' \<longleftrightarrow> c = CHR ''.''"
proof -
  have "toLowerChar c = CHR ''.'' \<longleftrightarrow> (of_char (toLowerChar c) :: nat) = of_char CHR ''.''"
    by (simp only: of_char_eq_iff)
  also have "\<dots> \<longleftrightarrow> (of_char c :: nat) = of_char CHR ''.''"
    by (simp add: of_char_toLowerChar)
  also have "\<dots> \<longleftrightarrow> c = CHR ''.''"
    by (simp only: of_char_eq_iff)
  finally show ?thesis .
qed


lemma lastIndexOf_absent: "c \<notin> set s \<Longrightarrow> lastIndexOf s c = - 1"
  by (induction s) (auto simp: Let_def)

lemma lastIndexOf_last: "c \<notin> set rest \<Longrightarrow> lastIndexOf (pre @ c # rest) c = int (length pre)"
  by (induction pre) (auto simp: Let_def lastIndexOf_absent)

lemma lastIndexOf_map:
  "(\<And>x. f x = c \<longleftrightarrow> x = c) \<Longrightarrow> lastIndexOf (map f s) c = lastIndexOf s c"
  by (induction s) (auto simp: Let_def)

lemma slice_suffix: "suffix (slice s i) s"
  by (simp add: slice_def Let_def suffix_drop)

section \<open>Properties of mapping inference\<close>

text \<open>
  C3. Mapping inference is a total function of the headers that keeps their structure:
  it returns one entry per header, in the order of the headers, and the source column of
  each entry is the header itself, unchanged.
\<close>

theorem initialMappings_structure:
  "length (initialMappings hs) = length hs \<and> map csvColumn (initialMappings hs) = hs"
  by (simp add: initialMappings_def inferMapping_def comp_def)

text \<open>
  The handler stores exactly this list when the preview comes back, whatever the state
  was before.
\<close>

lemma handleFileChange_proposes:
  assumes "fileExtension (name f) \<in> set validTypes"
    and "server (PreviewRequest token f) = PreviewOk p"
  shows "columnMappings (fst (handleFileChange token server (Some f) st)) =
           initialMappings (headers p)"
  using assms by (simp add: handleFileChange_def Let_def)


text \<open>
  C9. The target field proposed for a header is empty or the name of one of the fifteen
  fields of \<open>leadFields\<close>; nothing outside the registry is ever proposed.
\<close>

theorem suggestedField_in_registry:
  "suggestedField (normalizedHeader h) = [] \<or>
   suggestedField (normalizedHeader h) \<in> set (map field leadFields)"
  by (simp add: suggestedField_def leadFields_def)

text \<open>
  C2, as stated, fails: a header that contains "phone" and "secondary" is given the
  secondary-phone field only when no earlier rule of the chain matches. The header
  "Email / Secondary Phone" contains both words and is proposed as \<open>email\<close>, and
  "Company Phone" contains "phone" without "secondary" and is proposed as \<open>name\<close>.
\<close>

theorem suggestedField_phone_counterexample:
  "includesStr (normalizedHeader ''Email / Secondary Phone'') ''phone'' \<and>
   includesStr (normalizedHeader ''Email / Secondary Phone'') ''secondary'' \<and>
   suggestedField (normalizedHeader ''Email / Secondary Phone'') \<noteq> ''secondary_phone'' \<and>
   includesStr (normalizedHeader ''Company Phone'') ''phone'' \<and>
   \<not> includesStr (normalizedHeader ''Company Phone'') ''secondary'' \<and>
   suggestedField (normalizedHeader ''Company Phone'') \<noteq> ''phone''"
  by code_simp

text \<open>
  C2, amended. The first rule that matches wins. A normalised header that contains
  "company" or "plant" is proposed as the primary name field. When none of the rules in
  front of the phone rules matches (no "name", "company" or "plant", not "contact"
  together with "person", no "title", no "email"), a header that contains both "phone"
  and "secondary" is proposed as the secondary-phone field and a header that contains
  "phone" without "secondary" as the primary phone field: the two phone rules exclude
  each other, so neither shadows the other.
\<close>

theorem suggestedField_phone_rules:
  "(includesStr (normalizedHeader h) ''company'' \<or> includesStr (normalizedHeader h) ''plant''
      \<longrightarrow> suggestedField (normalizedHeader h) = ''name'') \<and>
   (includesStr (normalizedHeader h) ''phone'' \<and> includesStr (normalizedHeader h) ''secondary'' \<and>
    \<not> (includesStr (normalizedHeader h) ''name'' \<or> includesStr (normalizedHeader h) ''company'' \<or>
       includesStr (normalizedHeader h) ''plant'' \<or>
       (includesStr (normalizedHeader h) ''contact'' \<and> includesStr (normalizedHeader h) ''person'') \<or>
       includesStr (normalizedHeader h) ''title'' \<or> includesStr (normalizedHeader h) ''email'')
      \<longrightarrow> suggestedField (normalizedHeader h) = ''secondary_phone'') \<and>
   (includesStr (normalizedHeader h) ''phone'' \<and> \<not> includesStr (normalizedHeader h) ''secondary'' \<and>
    \<not> (includesStr (normalizedHeader h) ''name'' \<or> includesStr (normalizedHeader h) ''company'' \<or>
       includesStr (normalizedHeader h) ''plant'' \<or>
       (includesStr (normalizedHeader h) ''contact'' \<and> includesStr (normalizedHeader h) ''person'') \<or>
       includesStr (normalizedHeader h) ''title'' \<or> includesStr (normalizedHeader h) ''email'')
      \<longrightarrow> suggestedField (normalizedHeader h) = ''phone'')"
  by (simp add: suggestedField_def)

theorem suggestedField_phone_rules_witness:
  "suggestedField (normalizedHeader ''Plant / Site'') = ''name'' \<and>
   suggestedField (normalizedHeader ''Secondary Phone #'') = ''secondary_phone'' \<and>
   suggestedField (normalizedHeader ''Contact Phone'') = ''phone''"
proof -
  have a: "includesStr (normalizedHeader ''Plant / Site'') ''plant''"
    by code_simp
  have b: "includesStr (normalizedHeader ''Secondary Phone #'') ''phone'' \<and>
           includesStr (normalizedHeader ''Secondary Phone #'') ''secondary'' \<and>
    \<not> (includesStr (normalizedHeader ''Secondary Phone #'') ''name'' \<or>
       includesStr (normalizedHeader ''Secondary Phone #'') ''company'' \<or>
       includesStr (normalizedHeader ''Secondary Phone #'') ''plant'' \<or>
       (includesStr (normalizedHeader ''Secondary Phone #'') ''contact'' \<and>
        includesStr (normalizedHeader ''Secondary Phone #'') ''person'') \<or>
       includesStr (normalizedHeader ''Secondary Phone #'') ''title'' \<or>
       includesStr (normalizedHeader ''Secondary Phone #'') ''email'')"
    by code_simp
  have c: "includesStr (normalizedHeader ''Contact Phone'') ''phone'' \<and>
           \<not> includesStr (normalizedHeader ''Contact Phone'') ''secondary'' \<and>
    \<not> (includesStr (normalizedHeader ''Contact Phone'') ''name'' \<or>
       includesStr (normalizedHeader ''Contact Phone'') ''company'' \<or>
       includesStr (normalizedHeader ''Contact Phone'') ''plant'' \<or>
       (includesStr (normalizedHeader ''Contact Phone'') ''contact'' \<and>
        includesStr (normalizedHeader ''Contact Phone'') ''person'') \<or>
       includesStr (normalizedHeader ''Contact Phone'') ''title'' \<or>
       includesStr (normalizedHeader ''Contact Phone'') ''email'')"
    by code_simp
  from a suggestedField_phone_rules [of "''Plant / Site''"]
  have 1: "suggestedField (normalizedHeader ''Plant / Site'') = ''name''" by blast
  from b suggestedField_phone_rules [of "''Secondary Phone #''"]
  have 2: "suggestedField (normalizedHeader ''Secondary Phone #'') = ''secondary_phone''" by blast
  from c suggestedField_phone_rules [of "''Contact Phone''"]
  have 3: "suggestedField (normalizedHeader ''Contact Phone'') = ''phone''" by blast
  from 1 2 3 show ?thesis by blast
qed

text \<open>
  The first rule takes every header that contains "name", so the alternative "name" of
  the second rule never decides: "Contact Name" is proposed as \<open>name\<close>.
\<close>

lemma suggestedField_name_first: "includesStr n ''name'' \<Longrightarrow> suggestedField n = ''name''"
  by (simp add: suggestedField_def)

lemma suggestedField_Contact_Name: "suggestedField (normalizedHeader ''Contact Name'') = ''name''"
  by code_simp

text \<open>A header is left unmapped exactly when no rule of the chain matches it.\<close>

lemma suggestedField_empty_iff: "suggestedField n = [] \<longleftrightarrow> \<not> matchesAnyRule n"
  unfolding suggestedField_def matchesAnyRule_def by auto

text \<open>
  C6. A header that matches no rule is not an error: inference still returns one entry
  per header, and the entry of that header keeps the header as its source column and has
  the empty target field.
\<close>

theorem unmatched_header_skipped:
  assumes "i < length hs" and "\<not> matchesAnyRule (normalizedHeader (hs ! i))"
  shows "length (initialMappings hs) = length hs \<and>
         initialMappings hs ! i = \<lparr>csvColumn = hs ! i, leadField = []\<rparr>"
  using assms
  by (simp add: initialMappings_def inferMapping_def suggestedField_empty_iff)

theorem unmatched_header_skipped_witness:
  "initialMappings [''Company'', ''Fax'', ''Email''] ! 1 = \<lparr>csvColumn = ''Fax'', leadField = []\<rparr>"
proof -
  have h: "\<not> matchesAnyRule (normalizedHeader ([''Company'', ''Fax'', ''Email''] ! 1))"
    by code_simp
  have l: "(1::nat) < length [''Company'', ''Fax'', ''Email'']"
    by simp
  from unmatched_header_skipped [OF l h] show ?thesis by simp
qed

text \<open>
  C8. Inference is deterministic: the target field proposed for a header depends on the
  text of the header alone. Wherever the same header text stands, in whatever list of
  headers and at whatever position, the proposed target field is the same.
\<close>

theorem inference_deterministic:
  assumes "i < length hs" and "j < length hs'" and "hs ! i = hs' ! j"
  shows "leadField (initialMappings hs ! i) = leadField (initialMappings hs' ! j)"
  using assms by (simp add: initialMappings_def inferMapping_def)

theorem inference_deterministic_witness:
  "leadField (initialMappings [''Phone'', ''Email''] ! 0) =
   leadField (initialMappings [''City'', ''Notes'', ''Phone''] ! 2)"
  using inference_deterministic [of 0 "[''Phone'', ''Email'']" 2 "[''City'', ''Notes'', ''Phone'']"]
  by simp

section \<open>Properties of editing a mapping\<close>

text \<open>
  C10. \<open>updateMapping csvColumn leadField\<close> changes nothing of the state but the list
  of mappings, and keeps the length of the list, its order and every source column. Every
  entry whose source column is the given one gets the given target field, so two columns
  with the same header are edited together; every other entry is unchanged.
\<close>

theorem updateMapping_frame:
  "updateMapping c lf st = st\<lparr>columnMappings := columnMappings (updateMapping c lf st)\<rparr> \<and>
   length (columnMappings (updateMapping c lf st)) = length (columnMappings st) \<and>
   map csvColumn (columnMappings (updateMapping c lf st)) = map csvColumn (columnMappings st) \<and>
   (\<forall>i < length (columnMappings st).
      (csvColumn (columnMappings st ! i) = c \<longrightarrow>
         columnMappings (updateMapping c lf st) ! i = (columnMappings st ! i)\<lparr>leadField := lf\<rparr>) \<and>
      (csvColumn (columnMappings st ! i) \<noteq> c \<longrightarrow>
         columnMappings (updateMapping c lf st) ! i = columnMappings st ! i))"
  by (simp add: updateMapping_def updateMappingList_def comp_def)

theorem updateMapping_frame_witness:
  "columnMappings (updateMapping ''Phone'' ''secondary_phone''
      (initialState\<lparr>columnMappings :=
         [\<lparr>csvColumn = ''Phone'', leadField = ''phone''\<rparr>,
          \<lparr>csvColumn = ''Notes'', leadField = ''notes''\<rparr>,
          \<lparr>csvColumn = ''Phone'', leadField = ''phone''\<rparr>]\<rparr>)) ! 0 =
     \<lparr>csvColumn = ''Phone'', leadField = ''secondary_phone''\<rparr> \<and>
   columnMappings (updateMapping ''Phone'' ''secondary_phone''
      (initialState\<lparr>columnMappings :=
         [\<lparr>csvColumn = ''Phone'', leadField = ''phone''\<rparr>,
          \<lparr>csvColumn = ''Notes'', leadField = ''notes''\<rparr>,
          \<lparr>csvColumn = ''Phone'', leadField = ''phone''\<rparr>]\<rparr>)) ! 1 =
     \<lparr>csvColumn = ''Notes'', leadField = ''notes''\<rparr> \<and>
   columnMappings (updateMapping ''Phone'' ''secondary_phone''
      (initialState\<lparr>columnMappings :=
         [\<lparr>csvColumn = ''Phone'', leadField = ''phone''\<rparr>,
          \<lparr>csvColumn = ''Notes'', leadField = ''notes''\<rparr>,
          \<lparr>csvColumn = ''Phone'', leadField = ''phone''\<rparr>]\<rparr>)) ! 2 =
     \<lparr>csvColumn = ''Phone'', leadField = ''secondary_phone''\<rparr>"
proof -
  let ?st = "initialState\<lparr>columnMappings :=
         [\<lparr>csvColumn = ''Phone'', leadField = ''phone''\<rparr>,
          \<lparr>csvColumn = ''Notes'', leadField = ''notes''\<rparr>,
          \<lparr>csvColumn = ''Phone'', leadField = ''phone''\<rparr>]\<rparr>"
  note g = updateMapping_frame [of "''Phone''" "''secondary_phone''" ?st,
      THEN conjunct2, THEN conjunct2, THEN conjunct2, rule_format]
  have r0: "columnMappings (updateMapping ''Phone'' ''secondary_phone'' ?st) ! 0 =
      \<lparr>csvColumn = ''Phone'', leadField = ''secondary_phone''\<rparr>"
    using g [of 0] by simp
  have r1: "columnMappings (updateMapping ''Phone'' ''secondary_phone'' ?st) ! 1 =
      \<lparr>csvColumn = ''Notes'', leadField = ''notes''\<rparr>"
    using g [of 1] by simp
  have r2: "columnMappings (updateMapping ''Phone'' ''secondary_phone'' ?st) ! 2 =
      \<lparr>csvColumn = ''Phone'', leadField = ''secondary_phone''\<rparr>"
    using g [of 2] by simp
  from r0 r1 r2 show ?thesis by (intro conjI)
qed


section \<open>Properties of the upload\<close>

text \<open>
  The extension the handler computes is \<open>.csv\<close> or \<open>.xlsx\<close> exactly when the
  lower-cased name ends with it.
\<close>

lemma fileExtension_iff:
  assumes "CHR ''.'' \<notin> set e"
  shows "fileExtension nm = CHR ''.'' # e \<longleftrightarrow> suffix (CHR ''.'' # e) (toLowerCase nm)"
proof
  assume "fileExtension nm = CHR ''.'' # e"
  then show "suffix (CHR ''.'' # e) (toLowerCase nm)"
    using slice_suffix [of "toLowerCase nm" "lastIndexOf nm CHR ''.''"]
    by (simp add: fileExtension_def)
next
  assume "suffix (CHR ''.'' # e) (toLowerCase nm)"
  then obtain pre where pre: "toLowerCase nm = pre @ CHR ''.'' # e"
    by (auto simp: suffix_def)
  have "lastIndexOf nm CHR ''.'' = lastIndexOf (toLowerCase nm) CHR ''.''"
    unfolding toLowerCase_def by (rule lastIndexOf_map [symmetric]) (rule toLowerChar_dot)
  also have "\<dots> = int (length pre)"
    unfolding pre using assms by (rule lastIndexOf_last)
  finally show "fileExtension nm = CHR ''.'' # e"
    by (simp add: fileExtension_def slice_def pre)
qed

lemma fileExtension_valid_iff:
  "fileExtension nm \<in> set validTypes \<longleftrightarrow>
     suffix ''.csv'' (toLowerCase nm) \<or> suffix ''.xlsx'' (toLowerCase nm)"
proof -
  have a: "fileExtension nm = ''.csv'' \<longleftrightarrow> suffix ''.csv'' (toLowerCase nm)"
    by (rule fileExtension_iff) simp
  have b: "fileExtension nm = ''.xlsx'' \<longleftrightarrow> suffix ''.xlsx'' (toLowerCase nm)"
    by (rule fileExtension_iff) simp
  have "fileExtension nm \<in> set validTypes \<longleftrightarrow>
        fileExtension nm = ''.csv'' \<or> fileExtension nm = ''.xlsx''"
    by (simp add: validTypes_def)
  with a b show ?thesis by simp
qed

text \<open>
  C5. A selected file whose lower-cased extension is neither \<open>.csv\<close> nor \<open>.xlsx\<close> is
  refused: the handler sets the error message, clears the selected file, changes nothing
  else and sends no preview request.
\<close>

theorem handleFileChange_rejects:
  assumes "fileExtension (name f) \<notin> set validTypes"
  shows "handleFileChange token server (Some f) st =
           (st\<lparr>error := ''Please upload a CSV or Excel (.xlsx) file'', file_st := None\<rparr>, [])"
  using assms by (simp add: handleFileChange_def)

theorem handleFileChange_rejects_witness:
  "handleFileChange ''t''
     (\<lambda>r. PreviewOk \<lparr>headers = [''Company''], rows = [[''Acme'']], totalRows = 1\<rparr>)
     (Some \<lparr>name = ''leads.pdf'', content = ''%PDF''\<rparr>) initialState =
   (initialState\<lparr>error := ''Please upload a CSV or Excel (.xlsx) file'', file_st := None\<rparr>, [])"
proof -
  have h: "fileExtension (name \<lparr>name = ''leads.pdf'', content = ''%PDF''\<rparr>) \<notin> set validTypes"
    by code_simp
  from handleFileChange_rejects [OF h] show ?thesis .
qed

section \<open>Properties of the mapping check and of the import gate\<close>

lemma validateMappingsFor_cases:
  "validateMappingsFor schema cms =
     (if missingRequired schema cms = [] then []
      else [''Missing required fields: '' @ join '', '' (missingRequired schema cms)])"
  by (simp add: validateMappingsFor_def Let_def)

lemma join_validateMappings_nonempty:
  "validateMappings st \<noteq> [] \<Longrightarrow> join sep (validateMappings st) \<noteq> []"
  by (simp add: validateMappings_def validateMappingsFor_cases split: if_splits)

text \<open>Two proposals that the examples below start from.\<close>

lemma initialMappings_Email:
  "initialMappings [''Email''] = [\<lparr>csvColumn = ''Email'', leadField = ''email''\<rparr>]"
  by code_simp

lemma initialMappings_Company_Email:
  "initialMappings [''Company'', ''Email''] =
     [\<lparr>csvColumn = ''Company'', leadField = ''name''\<rparr>,
      \<lparr>csvColumn = ''Email'', leadField = ''email''\<rparr>]"
  by code_simp

text \<open>
  C4. In a state where the mapping check returns a non-empty list, \<open>handleImport\<close> sets
  the error, changes nothing else and returns without sending the import request: the
  error is the message about the file and the user when one of them is missing, and the
  validation errors joined otherwise; it is never empty.
\<close>

theorem handleImport_blocked:
  assumes "validateMappings st \<noteq> []"
  shows "handleImport token server st =
           (st\<lparr>error := (if file_st st = None \<or> selectedUser st = []
                         then ''Please select a file and user''
                         else join ''. '' (validateMappings st))\<rparr>, []) \<and>
         error (fst (handleImport token server st)) \<noteq> [] \<and>
         snd (handleImport token server st) = []"
proof -
  have eq: "handleImport token server st =
           (st\<lparr>error := (if file_st st = None \<or> selectedUser st = []
                         then ''Please select a file and user''
                         else join ''. '' (validateMappings st))\<rparr>, [])"
    using assms by (simp add: handleImport_def Let_def split: option.splits)
  moreover have "join ''. '' (validateMappings st) \<noteq> []"
    using assms by (rule join_validateMappings_nonempty)
  ultimately show ?thesis by simp
qed

theorem handleImport_blocked_witness:
  "handleImport ''t''
     (\<lambda>r. ImportOk \<lparr>message = ''done'', successful_imports = 1, failed_imports = 0,
                     warnings = [], failures = []\<rparr>)
     (initialState\<lparr>file_st := Some \<lparr>name = ''leads.csv'', content = ''Email''\<rparr>,
                   selectedUser := ''rep@example.com'',
                   columnMappings := initialMappings [''Email'']\<rparr>) =
   (initialState\<lparr>file_st := Some \<lparr>name = ''leads.csv'', content = ''Email''\<rparr>,
                   selectedUser := ''rep@example.com'',
                   columnMappings := initialMappings [''Email''],
                   error := ''Missing required fields: name''\<rparr>, [])"
proof -
  let ?st = "initialState\<lparr>file_st := Some \<lparr>name = ''leads.csv'', content = ''Email''\<rparr>,
                   selectedUser := ''rep@example.com'',
                   columnMappings := initialMappings [''Email'']\<rparr>"
  have v: "validateMappings ?st = [''Missing required fields: name'']"
    by (simp add: initialMappings_Email validateMappings_def validateMappingsFor_def
        missingRequired_def leadFields_def)
  then have h: "validateMappings ?st \<noteq> []" by simp
  from handleImport_blocked [OF h, THEN conjunct1] show ?thesis
    by (simp add: v)
qed

text \<open>
  The names the check finds missing are those of the required fields that no entry of the
  mapping targets, in the order of the schema, for any schema whose required fields have
  a name.
\<close>

lemma missingRequired_set:
  assumes "\<forall>F \<in> set schema. required F \<longrightarrow> field F \<noteq> []"
  shows "missingRequired schema cms =
           map field (filter (\<lambda>F. required F \<and> \<not> (\<exists>m \<in> set cms. leadField m = field F)) schema)"
  using assms
proof (induction schema)
  case Nil
  then show ?case by (simp add: missingRequired_def)
next
  case (Cons F Fs)
  then have IH: "missingRequired Fs cms =
      map field (filter (\<lambda>F. required F \<and> \<not> (\<exists>m \<in> set cms. leadField m = field F)) Fs)"
    by simp
  have step: "missingRequired (F # Fs) cms =
      (if required F \<and> field F \<notin> leadField ` {m \<in> set cms. leadField m \<noteq> []}
       then field F # missingRequired Fs cms else missingRequired Fs cms)"
    by (simp add: missingRequired_def)
  have "field F \<notin> leadField ` {m \<in> set cms. leadField m \<noteq> []} \<longleftrightarrow>
        \<not> (\<exists>m \<in> set cms. leadField m = field F)" if "required F"
    using that Cons.prems by (force simp: image_iff)
  with step IH show ?case by auto
qed

lemma required_leadFields_nonempty: "\<forall>F \<in> set leadFields. required F \<longrightarrow> field F \<noteq> []"
  by (simp add: leadFields_def)

text \<open>
  C1, as stated, fails: the list that \<open>validateMappings\<close> returns holds error messages,
  not field names. With the single column "Email" mapped, the required field \<open>name\<close>
  has no source column, and \<open>name\<close> is not an element of the returned list.
\<close>

theorem validateMappings_counterexample:
  "''name'' \<in> set (map field (filter required leadFields)) \<and>
   ''name'' \<notin> set (map leadField (initialMappings [''Email''])) \<and>
   ''name'' \<notin> set (validateMappings (initialState\<lparr>columnMappings := initialMappings [''Email'']\<rparr>))"
  by (simp add: initialMappings_Email validateMappings_def validateMappingsFor_def
      missingRequired_def leadFields_def)

text \<open>
  C1, amended. The check returns the empty list exactly when every required field of the
  schema is the target of at least one source column. Otherwise it returns a list of one
  message: "Missing required fields: " followed by the names of the required fields that
  no source column is mapped to, in the order of the schema, joined by ", ". The name of
  each such field occurs inside that message and is not itself an element of the list.
\<close>

theorem validateMappings_message:
  "(validateMappings st = [] \<longleftrightarrow>
      (\<forall>F \<in> set leadFields. required F \<longrightarrow> (\<exists>m \<in> set (columnMappings st). leadField m = field F))) \<and>
   (validateMappings st \<noteq> [] \<longrightarrow>
      validateMappings st =
        [''Missing required fields: '' @
           join '', '' (map field (filter (\<lambda>F. required F \<and>
              \<not> (\<exists>m \<in> set (columnMappings st). leadField m = field F)) leadFields))]) \<and>
   (\<forall>F \<in> set leadFields.
      required F \<and> \<not> (\<exists>m \<in> set (columnMappings st). leadField m = field F) \<longrightarrow>
        field F \<notin> set (validateMappings st) \<and>
        (\<exists>msg. validateMappings st = [msg] \<and> includesStr msg (field F)))"
proof -
  let ?cms = "columnMappings st"
  let ?missing = "map field (filter (\<lambda>F. required F \<and>
              \<not> (\<exists>m \<in> set ?cms. leadField m = field F)) leadFields)"
  have m: "missingRequired leadFields ?cms = ?missing"
    by (rule missingRequired_set [OF required_leadFields_nonempty])
  have v: "validateMappings st =
     (if ?missing = [] then [] else [''Missing required fields: '' @ join '', '' ?missing])"
    by (simp only: validateMappings_def validateMappingsFor_cases m)
  have e: "?missing = [] \<longleftrightarrow>
      (\<forall>F \<in> set leadFields. required F \<longrightarrow> (\<exists>m \<in> set ?cms. leadField m = field F))"
    by (auto simp: filter_empty_conv)
  have 1: "validateMappings st = [] \<longleftrightarrow>
      (\<forall>F \<in> set leadFields. required F \<longrightarrow> (\<exists>m \<in> set ?cms. leadField m = field F))"
    using v e by auto
  have 2: "validateMappings st \<noteq> [] \<longrightarrow>
      validateMappings st = [''Missing required fields: '' @ join '', '' ?missing]"
    using v by auto
  have 3: "field F \<notin> set (validateMappings st) \<and>
        (\<exists>msg. validateMappings st = [msg] \<and> includesStr msg (field F))"
    if F: "F \<in> set leadFields" "required F" "\<not> (\<exists>m \<in> set ?cms. leadField m = field F)" for F
  proof -
    from F have mem: "field F \<in> set ?missing" by auto
    then have ne: "?missing \<noteq> []" by (metis empty_iff empty_set)
    with v have eq: "validateMappings st = [''Missing required fields: '' @ join '', '' ?missing]"
      by simp
    have inc: "includesStr (''Missing required fields: '' @ join '', '' ?missing) (field F)"
      using mem by (rule includesStr_join)
    have "length (field F) < length (''Missing required fields: '' @ join '', '' ?missing)"
      using join_length_member [OF mem, of "'', ''"] by simp
    then have "field F \<noteq> ''Missing required fields: '' @ join '', '' ?missing" by auto
    with eq inc show ?thesis by simp
  qed
  from 1 2 3 show ?thesis by blast
qed

theorem validateMappings_message_witness:
  "validateMappings (initialState\<lparr>columnMappings := initialMappings [''Company'', ''Email'']\<rparr>) = [] \<and>
   validateMappings (initialState\<lparr>columnMappings := initialMappings [''Email'']\<rparr>) =
     [''Missing required fields: name''] \<and>
   includesStr ''Missing required fields: name'' ''name'' \<and>
   ''name'' \<notin> set (validateMappings (initialState\<lparr>columnMappings := initialMappings [''Email'']\<rparr>))"
proof -
  let ?ok = "initialState\<lparr>columnMappings := initialMappings [''Company'', ''Email'']\<rparr>"
  let ?bad = "initialState\<lparr>columnMappings := initialMappings [''Email'']\<rparr>"
  let ?name = "\<lparr>field = ''name'', required = True, description = ''Company/Organization name'',
       example = Some ''Acme Corporation''\<rparr>"
  have ok: "\<forall>F \<in> set leadFields. required F \<longrightarrow>
      (\<exists>m \<in> set (columnMappings ?ok). leadField m = field F)"
    by (simp add: initialMappings_Company_Email leadFields_def)
  have msg: "[''Missing required fields: '' @
           join '', '' (map field (filter (\<lambda>F. required F \<and>
              \<not> (\<exists>m \<in> set (columnMappings ?bad). leadField m = field F)) leadFields))]
        = [''Missing required fields: name'']"
    by (simp add: initialMappings_Email leadFields_def)
  have l1: "?name \<in> set leadFields"
    by (simp add: leadFields_def)
  have l2: "required ?name \<and>
      \<not> (\<exists>m \<in> set (columnMappings ?bad). leadField m = field ?name)"
    by (simp add: initialMappings_Email)
  note ok_thm = validateMappings_message [of ?ok]
  note bad_thm = validateMappings_message [of ?bad]
  from ok_thm [THEN conjunct1] ok have 1: "validateMappings ?ok = []"
    by (rule iffD2)
  from bad_thm [THEN conjunct2, THEN conjunct2, rule_format, OF l1 l2]
  have 3: "field ?name \<notin> set (validateMappings ?bad) \<and>
        (\<exists>msg. validateMappings ?bad = [msg] \<and> includesStr msg (field ?name))" .
  then have ne: "validateMappings ?bad \<noteq> []" by auto
  from bad_thm [THEN conjunct2, THEN conjunct1, rule_format, OF ne] msg
  have 2: "validateMappings ?bad = [''Missing required fields: name'']" by simp
  from 3 2 have 4: "includesStr ''Missing required fields: name'' ''name''" by simp
  from 3 have 5: "''name'' \<notin> set (validateMappings ?bad)" by simp
  from 1 2 4 5 show ?thesis by (intro conjI)
qed

end
